theory Spec2Isabelle
  imports Complex_Main
begin

section \<open>Semantic classification engine of smartinbox\<close>

text \<open>
  The theory embeds \<^verbatim>\<open>backend/app/services/local_embeddings.py\<close> and
  \<^verbatim>\<open>backend/app/services/semantic_classifier.py\<close>.

  Conventions of the embedding:
  \<^item> Python and numpy floats are idealised as \<^typ>\<open>real\<close>: there is no rounding error,
    no overflow and no NaN. An embedding vector (a one-dimensional \<^verbatim>\<open>np.ndarray\<close>) is a
    \<^typ>\<open>real list\<close>.
  \<^item> A Python \<^verbatim>\<open>str\<close> is a \<^typ>\<open>string\<close>; one \<^typ>\<open>char\<close> stands for one character of the
    Python string.
  \<^item> A \<^verbatim>\<open>dict\<close> whose iteration order matters is an association list in insertion order.
  \<^item> The sentence-transformers model is outside the repository: it is the parameter
    \<open>P\<close>, a record of the two ways \<^verbatim>\<open>model.encode\<close> is called. Every call is appended to
    a log kept in the state, so that "no provider call" is a statement about the log.
  \<^item> \<^verbatim>\<open>print\<close> is not modelled.
\<close>

subsection \<open>Python primitives used by the source\<close>

datatype error =
    ValueError_shapes      \<comment> \<open>\<^verbatim>\<open>np.dot\<close> on vectors of different lengths\<close>
  | ValueError_empty_max   \<comment> \<open>\<^verbatim>\<open>max\<close> of an empty iterable\<close>
  | KeyError               \<comment> \<open>\<^verbatim>\<open>d[k]\<close> with \<open>k\<close> not in \<open>d\<close>\<close>

text \<open>\<^verbatim>\<open>d[k] = v\<close> on an insertion-ordered dict: an existing key keeps its place.\<close>

fun dict_set :: "('k \<times> 'v) list \<Rightarrow> 'k \<Rightarrow> 'v \<Rightarrow> ('k \<times> 'v) list" where
  "dict_set [] k v = [(k, v)]"
| "dict_set ((k', v') # d) k v = (if k' = k then (k, v) # d else (k', v') # dict_set d k v)"

text \<open>\<^verbatim>\<open>d.get(k, default)\<close> on a dict given as a map.\<close>

definition dict_get_default :: "('k \<rightharpoonup> 'v) \<Rightarrow> 'k \<Rightarrow> 'v \<Rightarrow> 'v" where
  "dict_get_default d k dflt = (case d k of None \<Rightarrow> dflt | Some v \<Rightarrow> v)"

text \<open>\<^verbatim>\<open>sep.join(parts)\<close>.\<close>

fun join :: "string \<Rightarrow> string list \<Rightarrow> string" where
  "join sep [] = []"
| "join sep [p] = p"
| "join sep (p # q # ps) = p @ sep @ join sep (q # ps)"

text \<open>\<^verbatim>\<open>s.split(c)\<close> for a separator of one character: never the empty list.\<close>

fun py_split :: "char \<Rightarrow> string \<Rightarrow> string list" where
  "py_split sep [] = [[]]"
| "py_split sep (c # cs) =
     (if c = sep then [] # py_split sep cs
      else (case py_split sep cs of [] \<Rightarrow> [[c]] | w # ws \<Rightarrow> (c # w) # ws))"

text \<open>\<^verbatim>\<open>int(x)\<close> on a float: truncation towards zero.\<close>

definition py_int :: "real \<Rightarrow> int" where
  "py_int x = (if x < 0 then \<lceil>x\<rceil> else \<lfloor>x\<rfloor>)"

text \<open>
  \<^verbatim>\<open>max(d, key=d.get)\<close>: the keys are visited in insertion order and the running maximum
  is replaced only by a strictly greater value, so the first key of maximal value wins.
  \<^verbatim>\<open>max\<close> of an empty dict raises, which is \<open>None\<close> here.
\<close>

fun max_loop :: "('k \<times> real) \<Rightarrow> ('k \<times> real) list \<Rightarrow> ('k \<times> real)" where
  "max_loop m [] = m"
| "max_loop m (x # xs) = max_loop (if snd x > snd m then x else m) xs"

definition py_max_key :: "('k \<times> real) list \<Rightarrow> 'k option" where
  "py_max_key d = (case d of [] \<Rightarrow> None | x # xs \<Rightarrow> Some (fst (max_loop x xs)))"

text \<open>
  \<^verbatim>\<open>sorted(d.items(), key=lambda x: x[1], reverse=True)\<close>: a stable sort by descending
  value; items of equal value keep their order.
\<close>

definition sorted_desc :: "('k \<times> real) list \<Rightarrow> ('k \<times> real) list" where
  "sorted_desc items = sort_key (\<lambda>x. - snd x) items"

subsection \<open>The embedding provider and the state\<close>

record provider =
  encode :: "string \<Rightarrow> real list"                     \<comment> \<open>\<^verbatim>\<open>model.encode(text)\<close>\<close>
  encode_batch :: "string list \<Rightarrow> int \<Rightarrow> real list list"  \<comment> \<open>\<^verbatim>\<open>model.encode(texts, batch_size=n)\<close>, as a list of rows\<close>

datatype provider_call = Encode_single string | Encode_many "string list" int

text \<open>
  The state holds the two attributes of the classifier instance and the module state
  of \<^verbatim>\<open>local_embeddings\<close>: whether the model is loaded, and the calls made to it.
\<close>

record state =
  category_embeddings :: "(string \<times> real list) list"
  initialized :: bool
  model_loaded :: bool
  provider_log :: "provider_call list"

text \<open>\<^verbatim>\<open>SemanticEmailClassifier()\<close> in a process that has not loaded the model.\<close>

definition initial_state :: state where
  "initial_state =
     \<lparr>category_embeddings = [], initialized = False, model_loaded = False, provider_log = []\<rparr>"

subsection \<open>local\_embeddings.py\<close>

definition get_embedding :: "provider \<Rightarrow> state \<Rightarrow> string \<Rightarrow> real list \<times> state" where
  "get_embedding P st text =
     (encode P text,
      st\<lparr>model_loaded := True, provider_log := provider_log st @ [Encode_single text]\<rparr>)"

definition get_embeddings_batch ::
  "provider \<Rightarrow> state \<Rightarrow> string list \<Rightarrow> int \<Rightarrow> real list list \<times> state" where
  "get_embeddings_batch P st texts batch_size =
     (if texts = [] then ([], st)
      else (encode_batch P texts batch_size,
            st\<lparr>model_loaded := True,
               provider_log := provider_log st @ [Encode_many texts batch_size]\<rparr>))"

definition linalg_norm :: "real list \<Rightarrow> real" where
  "linalg_norm vec = sqrt (sum_list (map (\<lambda>x. x * x) vec))"

definition cosine_similarity :: "real list \<Rightarrow> real list \<Rightarrow> error + real" where
  "cosine_similarity vec1 vec2 =
     (if length vec1 \<noteq> length vec2 then Inl ValueError_shapes
      else
        let dot_product = sum_list (map2 (*) vec1 vec2);
            norm1 = linalg_norm vec1;
            norm2 = linalg_norm vec2
        in if norm1 = 0 \<or> norm2 = 0 then Inr 0
           else Inr (dot_product / (norm1 * norm2)))"

subsection \<open>semantic\_classifier.py\<close>

definition CATEGORY_DESCRIPTIONS :: "(string \<times> string list) list" where
  "CATEGORY_DESCRIPTIONS =
   [(''work'',
      [''Professional work email about meetings, projects, deadlines'',
       ''Office communication regarding tasks, assignments, reports'',
       ''Business correspondence with colleagues and managers'',
       ''Job-related emails about interviews, recruitment, career'',
       ''Team collaboration on Slack, Jira, GitHub, pull requests'',
       ''Corporate announcements and company updates'',
       ''Calendar invites and meeting schedules'']),
    (''personal'',
      [''Personal email from friends and family'',
       ''Casual conversation about life, plans, gatherings'',
       ''Birthday wishes, congratulations, personal news'',
       ''Vacation plans, trip discussions, photo sharing'',
       ''Catching up with old friends, reunion planning'',
       ''Personal matters and family discussions'']),
    (''social'',
      [''Social media notifications from Facebook, Twitter, LinkedIn'',
       ''Someone liked, commented, or shared your post'',
       ''New follower or friend request notification'',
       ''Social network activity and engagement alerts'',
       ''Instagram, TikTok, YouTube notifications'',
       ''Connection requests and social updates'']),
    (''promotions'',
      [''Marketing email with sales, discounts, special offers'',
       ''Promotional content about deals and limited time offers'',
       ''E-commerce notifications about new products'',
       ''Coupon codes, vouchers, and promotional campaigns'',
       ''Black Friday, holiday sales, clearance events'',
       ''Shopping recommendations and product suggestions'']),
    (''updates'',
      [''Account security alerts and password notifications'',
       ''Service updates and system notifications'',
       ''Order confirmation, shipping, and delivery updates'',
       ''App updates and software notifications'',
       ''Account verification and login alerts'',
       ''Subscription and service status updates'']),
    (''finance'',
      [''Bank statement and financial transaction alerts'',
       ''Payment confirmation, invoice, and billing'',
       ''Credit card and banking notifications'',
       ''Investment updates and financial reports'',
       ''Tax documents and financial statements'',
       ''Money transfer and payment receipts'']),
    (''newsletters'',
      [''Newsletter digest and content roundup'',
       ''Weekly or daily news briefing'',
       ''Blog updates and article recommendations'',
       ''Industry news and curated content'',
       ''Substack, Medium, and publication updates'',
       ''Educational content and learning resources''])]"

text \<open>The loop storing the category vectors, \<^verbatim>\<open>self._category_embeddings[category] = embedding\<close>.\<close>

fun store_embeddings ::
  "(string \<times> real list) list \<Rightarrow> (string \<times> real list) list \<Rightarrow> (string \<times> real list) list" where
  "store_embeddings [] d = d"
| "store_embeddings ((category, embedding) # rest) d =
     store_embeddings rest (dict_set d category embedding)"

definition initialize_category_embeddings :: "provider \<Rightarrow> state \<Rightarrow> state" where
  "initialize_category_embeddings P st =
     (if initialized st then st
      else
        let category_texts = map (\<lambda>(category, descriptions). join '' '' descriptions)
                                 CATEGORY_DESCRIPTIONS;
            category_names = map fst CATEGORY_DESCRIPTIONS;
            (embeddings, st1) = get_embeddings_batch P st category_texts 32;
            st2 = st1\<lparr>category_embeddings :=
                        store_embeddings (zip category_names embeddings)
                                         (category_embeddings st1)\<rparr>
        in st2\<lparr>initialized := True\<rparr>)"

definition prepare_email_text :: "string \<Rightarrow> string \<Rightarrow> string \<Rightarrow> string \<Rightarrow> string" where
  "prepare_email_text subject sender content sender_name =
     (let parts0 = [];
          parts1 = (if subject \<noteq> [] then parts0 @ [''Subject: '' @ subject] else parts0);
          parts2 = (if sender_name \<noteq> [] then parts1 @ [''From: '' @ sender_name]
                    else if sender \<noteq> []
                         then parts1 @ [''From: '' @ hd (py_split (CHR ''@'') sender)]
                         else parts1);
          parts3 = (if content \<noteq> []
                    then (let truncated_content = take 1500 content
                          in parts2 @ [''Content: '' @ truncated_content])
                    else parts2)
      in join [CHR 0x0A] parts3)"

text \<open>
  The loop filling \<^verbatim>\<open>similarities\<close>, the same in \<^verbatim>\<open>classify\<close> and in
  \<^verbatim>\<open>classify_batch\<close>; an exception of \<^verbatim>\<open>cosine_similarity\<close> ends it.
\<close>

fun similarity_loop ::
  "real list \<Rightarrow> (string \<times> real list) list \<Rightarrow> (string \<times> real) list
     \<Rightarrow> error + (string \<times> real) list" where
  "similarity_loop email_embedding [] similarities = Inr similarities"
| "similarity_loop email_embedding ((category, cat_embedding) # rest) similarities =
     (case cosine_similarity email_embedding cat_embedding of
        Inl err \<Rightarrow> Inl err
      | Inr similarity \<Rightarrow>
          similarity_loop email_embedding rest (dict_set similarities category similarity))"

record ClassificationResult =
  category :: string
  confidence :: int
  labels :: "string set"   \<comment> \<open>\<^verbatim>\<open>list(set(labels))\<close>: no duplicates, order not determined\<close>
  reason :: string

text \<open>
  \<open>fmt\<close> is Python's \<^verbatim>\<open>f"{sim:.2f}"\<close>, the formatting of a float with two decimals; it is
  a parameter of the model.
\<close>

definition classify ::
  "provider \<Rightarrow> (real \<Rightarrow> string) \<Rightarrow> state \<Rightarrow> string \<Rightarrow> string \<Rightarrow> string \<Rightarrow> string
     \<Rightarrow> (error + ClassificationResult) \<times> state" where
  "classify P fmt st subject sender content sender_name =
     (let st1 = (if \<not> initialized st then initialize_category_embeddings P st else st);
          email_text = prepare_email_text subject sender content sender_name;
          (email_embedding, st2) = get_embedding P st1 email_text
      in case similarity_loop email_embedding (category_embeddings st2) [] of
           Inl err \<Rightarrow> (Inl err, st2)
         | Inr similarities \<Rightarrow>
            (case py_max_key similarities of
               None \<Rightarrow> (Inl ValueError_empty_max, st2)
             | Some best_category0 \<Rightarrow>
                (case map_of similarities best_category0 of
                   None \<Rightarrow> (Inl KeyError, st2)
                 | Some best_similarity \<Rightarrow>
                    let confidence0 = py_int (min 95 (max 0 (best_similarity * 150)));
                        (best_category, confidence1) =
                           (if confidence0 < 30 then (''primary'', 50)
                            else (best_category0, confidence0));
                        labels1 = [best_category] @
                           map fst (filter (\<lambda>(cat, sim). cat \<noteq> best_category \<and> sim * 150 \<ge> 40)
                                           similarities);
                        top_3 = take 3 (sorted_desc similarities);
                        reason1 = ''Semantic(local): '' @
                           join '', '' (map (\<lambda>(cat, sim). cat @ ''='' @ fmt sim) top_3)
                    in (Inr \<lparr>category = best_category, confidence = confidence1,
                             labels = set labels1, reason = reason1\<rparr>, st2))))"

text \<open>The loop of \<^verbatim>\<open>classify_batch\<close> over \<^verbatim>\<open>all_embeddings\<close>, appending to \<^verbatim>\<open>results\<close>.\<close>

fun classify_batch_loop ::
  "(real \<Rightarrow> string) \<Rightarrow> (string \<times> real list) list \<Rightarrow> real list list
     \<Rightarrow> ClassificationResult list \<Rightarrow> error + ClassificationResult list" where
  "classify_batch_loop fmt cat_embs [] results = Inr results"
| "classify_batch_loop fmt cat_embs (email_embedding # rest) results =
     (case similarity_loop email_embedding cat_embs [] of
        Inl err \<Rightarrow> Inl err
      | Inr similarities \<Rightarrow>
         (case py_max_key similarities of
            None \<Rightarrow> Inl ValueError_empty_max
          | Some best_category0 \<Rightarrow>
             (case map_of similarities best_category0 of
                None \<Rightarrow> Inl KeyError
              | Some best_similarity \<Rightarrow>
                 let confidence0 = py_int (min 95 (max 0 (best_similarity * 150)));
                     (best_category, confidence1) =
                        (if confidence0 < 30 then (''primary'', 50)
                         else (best_category0, confidence0));
                     labels1 = [best_category] @
                        map fst (filter (\<lambda>(cat, sim). cat \<noteq> best_category \<and> sim * 150 \<ge> 40)
                                        similarities);
                     top_3 = take 3 (sorted_desc similarities);
                     reason1 = ''Semantic(local): '' @
                        join '', '' (map (\<lambda>(cat, sim). cat @ ''='' @ fmt sim) top_3)
                 in classify_batch_loop fmt cat_embs rest
                      (results @ [\<lparr>category = best_category, confidence = confidence1,
                                    labels = set labels1, reason = reason1\<rparr>]))))"

text \<open>The composite texts of a batch: each field read with \<^verbatim>\<open>email.get(key, "")\<close>.\<close>

definition email_texts :: "(string \<rightharpoonup> string) list \<Rightarrow> string list" where
  "email_texts emails =
     map (\<lambda>email. prepare_email_text
                     (dict_get_default email ''subject'' [])
                     (dict_get_default email ''sender'' [])
                     (dict_get_default email ''content'' [])
                     (dict_get_default email ''sender_name'' []))
         emails"

definition classify_batch ::
  "provider \<Rightarrow> (real \<Rightarrow> string) \<Rightarrow> state \<Rightarrow> (string \<rightharpoonup> string) list \<Rightarrow> int
     \<Rightarrow> (error + ClassificationResult list) \<times> state" where
  "classify_batch P fmt st emails batch_size =
     (if emails = [] then (Inr [], st)
      else
        let st1 = (if \<not> initialized st then initialize_category_embeddings P st else st);
            (all_embeddings, st2) = get_embeddings_batch P st1 (email_texts emails) batch_size
        in (classify_batch_loop fmt (category_embeddings st2) all_embeddings [], st2))"

subsection \<open>The decision on one vector\<close>

text \<open>
  The statements from the similarity mapping to the result are the same text in
  \<^verbatim>\<open>classify\<close> and in the loop of \<^verbatim>\<open>classify_batch\<close>. \<open>decide\<close> names them once, for the
  proofs: both functions are shown below to compute it.
\<close>

definition decide :: "(real \<Rightarrow> string) \<Rightarrow> (string \<times> real) list \<Rightarrow> error + ClassificationResult" where
  "decide fmt similarities =
     (case py_max_key similarities of
        None \<Rightarrow> Inl ValueError_empty_max
      | Some best_category0 \<Rightarrow>
         (case map_of similarities best_category0 of
            None \<Rightarrow> Inl KeyError
          | Some best_similarity \<Rightarrow>
             let confidence0 = py_int (min 95 (max 0 (best_similarity * 150)));
                 (best_category, confidence1) =
                    (if confidence0 < 30 then (''primary'', 50)
                     else (best_category0, confidence0));
                 labels1 = [best_category] @
                    map fst (filter (\<lambda>(cat, sim). cat \<noteq> best_category \<and> sim * 150 \<ge> 40)
                                    similarities);
                 top_3 = take 3 (sorted_desc similarities);
                 reason1 = ''Semantic(local): '' @
                    join '', '' (map (\<lambda>(cat, sim). cat @ ''='' @ fmt sim) top_3)
             in Inr \<lparr>category = best_category, confidence = confidence1,
                      labels = set labels1, reason = reason1\<rparr>))"

definition classify_vector ::
  "(real \<Rightarrow> string) \<Rightarrow> (string \<times> real list) list \<Rightarrow> real list \<Rightarrow> error + ClassificationResult" where
  "classify_vector fmt cat_embs email_embedding =
     (case similarity_loop email_embedding cat_embs [] of
        Inl err \<Rightarrow> Inl err
      | Inr similarities \<Rightarrow> decide fmt similarities)"




subsection \<open>The composite text as the specification words it\<close>

text \<open>
  The local part of an address is what stands before its first \<open>@\<close>. The composite text
  is written out for each combination of lines that are present: the subject line first,
  then the sender line, then the content line, with one newline between two lines and
  none at either end.
\<close>

definition local_part :: "string \<Rightarrow> string" where
  "local_part sender = takeWhile (\<lambda>c. c \<noteq> CHR ''@'') sender"

definition composite_text_spec :: "string \<Rightarrow> string \<Rightarrow> string \<Rightarrow> string \<Rightarrow> string" where
  "composite_text_spec subject sender content sender_name =
     (let subject_line = ''Subject: '' @ subject;
          from_line = ''From: '' @ (if sender_name \<noteq> [] then sender_name else local_part sender);
          content_line = ''Content: '' @ take 1500 content;
          has_subject = (subject \<noteq> []);
          has_from = (sender_name \<noteq> [] \<or> sender \<noteq> []);
          has_content = (content \<noteq> []);
          nl = [CHR 0x0A]
      in if has_subject \<and> has_from \<and> has_content
           then subject_line @ nl @ from_line @ nl @ content_line
         else if has_subject \<and> has_from then subject_line @ nl @ from_line
         else if has_subject \<and> has_content then subject_line @ nl @ content_line
         else if has_subject then subject_line
         else if has_from \<and> has_content then from_line @ nl @ content_line
         else if has_from then from_line
         else if has_content then content_line
         else [])"

subsection \<open>Vocabulary of the properties\<close>

text \<open>
  The contract of the embedding provider: a batch call returns, in order, what the
  single call returns for each text.
\<close>

definition batch_contract :: "provider \<Rightarrow> bool" where
  "batch_contract P \<longleftrightarrow> (\<forall>texts n. encode_batch P texts n = map (encode P) texts)"

text \<open>
  The states a classifier can be in: a new instance, and what the public methods leave.
\<close>

inductive reachable :: "provider \<Rightarrow> (real \<Rightarrow> string) \<Rightarrow> state \<Rightarrow> bool" for P fmt where
  fresh: "reachable P fmt initial_state"
| after_initialize: "reachable P fmt st \<Longrightarrow> reachable P fmt (initialize_category_embeddings P st)"
| after_classify:
    "reachable P fmt st \<Longrightarrow> reachable P fmt (snd (classify P fmt st subject sender content sender_name))"
| after_classify_batch:
    "reachable P fmt st \<Longrightarrow> reachable P fmt (snd (classify_batch P fmt st emails batch_size))"

text \<open>
  \<open>produced P fmt st sims r\<close>: started in state \<open>st\<close>, \<^verbatim>\<open>classify\<close> returns \<open>r\<close>, or
  \<^verbatim>\<open>classify_batch\<close> returns a list with \<open>r\<close> at some index; \<open>sims\<close> is the similarity mapping of
  the message concerned, that is, of its embedding against the category vectors held
  after the call.
\<close>

inductive produced ::
  "provider \<Rightarrow> (real \<Rightarrow> string) \<Rightarrow> state \<Rightarrow> (string \<times> real) list \<Rightarrow> ClassificationResult \<Rightarrow> bool"
  for P fmt st where
  by_classify:
    "fst (classify P fmt st subject sender content sender_name) = Inr r \<Longrightarrow>
     similarity_loop (encode P (prepare_email_text subject sender content sender_name))
        (category_embeddings (snd (classify P fmt st subject sender content sender_name))) []
       = Inr sims \<Longrightarrow>
     produced P fmt st sims r"
| by_classify_batch:
    "fst (classify_batch P fmt st emails batch_size) = Inr rs \<Longrightarrow>
     i < length rs \<Longrightarrow>
     similarity_loop (encode_batch P (email_texts emails) batch_size ! i)
        (category_embeddings (snd (classify_batch P fmt st emails batch_size))) []
       = Inr sims \<Longrightarrow>
     produced P fmt st sims (rs ! i)"

text \<open>The clamped and truncated scaling of a similarity.\<close>

definition converted :: "real \<Rightarrow> int" where
  "converted s = \<lfloor>max 0 (min 95 (s * 150))\<rfloor>"

text \<open>The category vectors after initialisation, under the provider's contract.\<close>

definition registry_of :: "provider \<Rightarrow> (string \<times> real list) list" where
  "registry_of P = map (\<lambda>(c, ds). (c, encode P (join '' '' ds))) CATEGORY_DESCRIPTIONS"

subsection \<open>A concrete provider\<close>

text \<open>
  A small provider over two-dimensional vectors, to run the definitions on: the texts of
  the categories work and personal go to \<open>[1, 0]\<close>, those of the other five to \<open>[-1, 0]\<close>, a
  message with a subject to \<open>[5, 12]\<close>, a message with a content only to \<open>[20, 99]\<close> and the
  empty text to the zero vector. \<open>toy_fmt\<close> prints the similarities that occur as Python
  prints them with two decimals. \<open>hi_sims\<close> and \<open>hi_result\<close> are the similarities and the
  result of the message with subject \<open>hi\<close>, \<open>blank_sims\<close> and \<open>blank_result\<close> those of the
  message with all fields empty, \<open>lo_sims\<close> and \<open>lo_result\<close> those of the message with
  content \<open>x\<close> and nothing else. \<open>hi_blank_batch\<close> and \<open>lo_batch\<close> are these messages as
  the dicts \<^verbatim>\<open>classify_batch\<close> takes.
\<close>

abbreviation hi_sims :: "(string \<times> real) list" where
  "hi_sims \<equiv>
     [(''work'', 5 / 13), (''personal'', 5 / 13), (''social'', - (5 / 13)),
      (''promotions'', - (5 / 13)), (''updates'', - (5 / 13)), (''finance'', - (5 / 13)),
      (''newsletters'', - (5 / 13))]"

abbreviation hi_result :: ClassificationResult where
  "hi_result \<equiv>
     \<lparr>category = ''work'', confidence = 57, labels = {''work'', ''personal''},
      reason = ''Semantic(local): work=0.38, personal=0.38, social=-0.38''\<rparr>"

abbreviation blank_sims :: "(string \<times> real) list" where
  "blank_sims \<equiv>
     [(''work'', 0), (''personal'', 0), (''social'', 0), (''promotions'', 0),
      (''updates'', 0), (''finance'', 0), (''newsletters'', 0)]"

abbreviation blank_result :: ClassificationResult where
  "blank_result \<equiv>
     \<lparr>category = ''primary'', confidence = 50, labels = {''primary''},
      reason = ''Semantic(local): work=0.00, personal=0.00, social=0.00''\<rparr>"

abbreviation lo_sims :: "(string \<times> real) list" where
  "lo_sims \<equiv>
     [(''work'', 20 / 101), (''personal'', 20 / 101), (''social'', - (20 / 101)),
      (''promotions'', - (20 / 101)), (''updates'', - (20 / 101)), (''finance'', - (20 / 101)),
      (''newsletters'', - (20 / 101))]"

abbreviation lo_result :: ClassificationResult where
  "lo_result \<equiv>
     \<lparr>category = ''primary'', confidence = 50, labels = {''primary''},
      reason = ''Semantic(local): work=0.20, personal=0.20, social=-0.20''\<rparr>"

abbreviation hi_blank_batch :: "(string \<rightharpoonup> string) list" where
  "hi_blank_batch \<equiv> [[''subject'' \<mapsto> ''hi''], Map.empty]"

abbreviation lo_batch :: "(string \<rightharpoonup> string) list" where
  "lo_batch \<equiv> [[''content'' \<mapsto> ''x'']]"

definition toy_encode :: "string \<Rightarrow> real list" where
  "toy_encode text =
     (if text = [] then [0, 0]
      else if take 2 text = ''Pr'' \<or> take 2 text = ''Pe'' then [1, 0]
      else if take 2 text = ''Su'' then [5, 12]
      else if take 2 text = ''Co'' then [20, 99]
      else [-1, 0])"

definition toy_provider :: provider where
  "toy_provider = \<lparr>encode = toy_encode, encode_batch = (\<lambda>texts n. map toy_encode texts)\<rparr>"

definition toy_fmt :: "real \<Rightarrow> string" where
  "toy_fmt x =
     (if x < - (1 / 4) then ''-0.38'' else if x < 0 then ''-0.20''
      else if x = 0 then ''0.00''
      else if x < 1 / 4 then ''0.20'' else ''0.38'')"

section \<open>Properties\<close>

subsection \<open>Both entry points compute the decision\<close>

lemma classify_unfold:
  "classify P fmt st subject sender content sender_name =
     (let st1 = (if \<not> initialized st then initialize_category_embeddings P st else st);
          email_text = prepare_email_text subject sender content sender_name;
          st2 = snd (get_embedding P st1 email_text)
      in (classify_vector fmt (category_embeddings st2) (encode P email_text), st2))"
  unfolding classify_def classify_vector_def decide_def Let_def get_embedding_def
  by (simp split: sum.splits option.splits prod.splits)

lemma classify_batch_loop_Cons:
  "classify_batch_loop fmt ce (e # rest) results =
     (case classify_vector fmt ce e of
        Inl err \<Rightarrow> Inl err
      | Inr r \<Rightarrow> classify_batch_loop fmt ce rest (results @ [r]))"
  unfolding classify_vector_def decide_def
  by (simp add: Let_def split: sum.splits option.splits prod.splits)

lemma classify_batch_loop_Inr:
  "classify_batch_loop fmt ce es acc = Inr rs \<longleftrightarrow>
     (\<exists>rs'. rs = acc @ rs' \<and> map (classify_vector fmt ce) es = map Inr rs')"
proof (induction es arbitrary: acc)
  case Nil
  show ?case by auto
next
  case (Cons e es)
  show ?case
  proof (cases "classify_vector fmt ce e")
    case (Inl err)
    then show ?thesis by (auto simp: classify_batch_loop_Cons simp del: classify_batch_loop.simps)
  next
    case (Inr r)
    have "classify_batch_loop fmt ce (e # es) acc = classify_batch_loop fmt ce es (acc @ [r])"
      by (simp add: classify_batch_loop_Cons Inr del: classify_batch_loop.simps)
    also have "\<dots> = Inr rs \<longleftrightarrow> (\<exists>rs'. rs = (acc @ [r]) @ rs' \<and> map (classify_vector fmt ce) es = map Inr rs')"
      by (rule Cons.IH)
    also have "\<dots> \<longleftrightarrow> (\<exists>rs''. rs = acc @ rs'' \<and> map (classify_vector fmt ce) (e # es) = map Inr rs'')"
      (is "?L \<longleftrightarrow> ?R")
    proof
      assume ?L
      then obtain rs' where "rs = (acc @ [r]) @ rs'" "map (classify_vector fmt ce) es = map Inr rs'"
        by blast
      then show ?R using Inr by (intro exI[of _ "r # rs'"]) simp
    next
      assume ?R
      then obtain rs'' where h: "rs = acc @ rs''" "map (classify_vector fmt ce) (e # es) = map Inr rs''"
        by blast
      then obtain r' rs' where "rs'' = r' # rs'" by (cases rs'') auto
      with h Inr show ?L by auto
    qed
    finally show ?thesis .
  qed
qed



subsection \<open>Empty batch\<close>

text \<open>
  C9: \<^verbatim>\<open>classify_batch\<close> of the empty sequence returns the empty sequence and leaves the
  state as it was: nothing is appended to the log of provider calls, the model is not
  loaded and the category registry is not initialised.
\<close>

theorem classify_batch_empty:
  "classify_batch P fmt st [] batch_size = (Inr [], st) \<and>
   provider_log (snd (classify_batch P fmt st [] batch_size)) = provider_log st \<and>
   initialized (snd (classify_batch P fmt st [] batch_size)) = initialized st"
  by (simp add: classify_batch_def)

subsection \<open>Text composition\<close>

lemma py_split_nonempty: "py_split sep s \<noteq> []"
  by (induction s) (auto split: list.splits)

lemma hd_py_split: "hd (py_split sep s) = takeWhile (\<lambda>c. c \<noteq> sep) s"
  by (induction s) (auto split: list.splits simp: py_split_nonempty)

text \<open>
  C6: the text that is embedded is the specified composite text: the line
  \<open>Subject: \<close> with the subject unless the subject is empty; the line \<open>From: \<close> with the
  sender name if it is not empty, else with the part of the sender address before the
  first \<open>@\<close> if the address is not empty, else no such line; the line \<open>Content: \<close> with the
  first 1500 characters of the content unless the content is empty; the lines that are
  present in this order, with a newline between two of them.
\<close>

theorem prepare_email_text_spec:
  "prepare_email_text subject sender content sender_name =
     composite_text_spec subject sender content sender_name"
  by (simp add: prepare_email_text_def composite_text_spec_def local_part_def hd_py_split Let_def)

theorem prepare_email_text_spec_witness:
  "prepare_email_text ''Hello'' ''bob@example.com'' ''body'' [] =
     ''Subject: Hello'' @ [CHR 0x0A] @ ''From: bob'' @ [CHR 0x0A] @ ''Content: body'' \<and>
   prepare_email_text ''Hello'' ''bob@example.com'' [] ''Bob'' =
     ''Subject: Hello'' @ [CHR 0x0A] @ ''From: Bob'' \<and>
   prepare_email_text [] ''no-at-sign'' ''body'' [] =
     ''From: no-at-sign'' @ [CHR 0x0A] @ ''Content: body'' \<and>
   prepare_email_text [] [] [] [] = [] \<and>
   prepare_email_text [] [] (replicate 1600 (CHR ''a'')) [] =
     ''Content: '' @ replicate 1500 (CHR ''a'')"
  unfolding prepare_email_text_spec
  by (simp add: composite_text_spec_def local_part_def Let_def)

subsection \<open>Python's max: the first key of maximal value\<close>

lemma max_loop_mem: "max_loop m xs \<in> set (m # xs)"
  by (induction xs arbitrary: m) auto

lemma max_loop_ge_start: "snd m \<le> snd (max_loop m xs)"
proof (induction xs arbitrary: m)
  case Nil
  show ?case by simp
next
  case (Cons x xs)
  have "snd m \<le> snd (if snd m < snd x then x else m)" by simp
  also have "\<dots> \<le> snd (max_loop (if snd m < snd x then x else m) xs)" by (rule Cons.IH)
  finally show ?case by simp
qed

lemma max_loop_first:
  "\<exists>pre post. m # xs = pre @ max_loop m xs # post \<and>
      (\<forall>y\<in>set pre. snd y < snd (max_loop m xs)) \<and>
      (\<forall>y\<in>set post. snd y \<le> snd (max_loop m xs))"
proof (induction xs arbitrary: m)
  case Nil
  show ?case by (rule exI[of _ "[]"]) simp
next
  case (Cons x xs)
  let ?m' = "if snd m < snd x then x else m"
  let ?b = "max_loop ?m' xs"
  have b: "max_loop m (x # xs) = ?b" by simp
  obtain pre post where dec: "?m' # xs = pre @ ?b # post"
    and lt: "\<forall>y\<in>set pre. snd y < snd ?b" and le: "\<forall>y\<in>set post. snd y \<le> snd ?b"
    using Cons.IH[of ?m'] by blast
  have ge: "snd ?m' \<le> snd ?b" by (rule max_loop_ge_start)
  show ?case
  proof (cases "snd m < snd x")
    case True
    then have "m # x # xs = (m # pre) @ ?b # post" using dec by simp
    moreover have "\<forall>y\<in>set (m # pre). snd y < snd ?b" using lt True ge by auto
    ultimately show ?thesis unfolding b using le by blast
  next
    case False
    show ?thesis
    proof (cases pre)
      case Nil
      have eq: "?m' # xs = ?b # post" using dec unfolding Nil by (simp only: append_Nil)
      have m': "?m' = m" using False by simp
      from eq have inj: "?m' = ?b \<and> xs = post" by (rule list.inject[THEN iffD1])
      have bm': "?b = ?m'" using inj by (rule conjunct1[THEN sym])
      have post: "post = xs" using inj by (rule conjunct2[THEN sym])
      have bm: "?b = m" using bm' m' by (rule trans)
      have "m # x # xs = [] @ ?b # (x # xs)" using bm by simp
      moreover have "\<forall>y\<in>set (x # xs). snd y \<le> snd ?b"
        using le post False bm by auto
      ultimately show ?thesis unfolding b by (metis empty_iff list.set(1))
    next
      case (Cons p pre')
      then have p: "p = m" and xs: "xs = pre' @ ?b # post" using dec False by auto
      have "m # x # xs = (m # x # pre') @ ?b # post" using xs by simp
      moreover have "\<forall>y\<in>set (m # x # pre'). snd y < snd ?b"
        using lt Cons p False by auto
      ultimately show ?thesis unfolding b using le by blast
    qed
  qed
qed

lemma py_max_key_first:
  assumes "sims \<noteq> []"
  shows "\<exists>pre b s post. sims = pre @ (b, s) # post \<and> py_max_key sims = Some b \<and>
           (\<forall>y\<in>set pre. snd y < s) \<and> (\<forall>y\<in>set post. snd y \<le> s)"
proof -
  obtain m xs where sims: "sims = m # xs" using assms by (cases sims) auto
  obtain pre post where dec: "m # xs = pre @ max_loop m xs # post"
    and lt: "\<forall>y\<in>set pre. snd y < snd (max_loop m xs)"
    and le: "\<forall>y\<in>set post. snd y \<le> snd (max_loop m xs)"
    using max_loop_first[of m xs] by blast
  have key: "py_max_key sims = Some (fst (max_loop m xs))"
    by (simp add: sims py_max_key_def)
  have "sims = pre @ (fst (max_loop m xs), snd (max_loop m xs)) # post"
    using dec sims by simp
  with key lt le show ?thesis by blast
qed

lemma py_max_key_None: "py_max_key sims = None \<longleftrightarrow> sims = []"
  by (simp add: py_max_key_def split: list.splits)

subsection \<open>Dictionaries keep their keys distinct\<close>

lemma keys_dict_set:
  "map fst (dict_set d k v) = (if k \<in> fst ` set d then map fst d else map fst d @ [k])"
  by (induction d k v rule: dict_set.induct) auto

lemma distinct_dict_set: "distinct (map fst d) \<Longrightarrow> distinct (map fst (dict_set d k v))"
  by (simp add: keys_dict_set)

lemma dict_set_fresh: "k \<notin> fst ` set d \<Longrightarrow> dict_set d k v = d @ [(k, v)]"
  by (induction d k v rule: dict_set.induct) auto

lemma similarity_loop_distinct:
  "similarity_loop e ce acc = Inr sims \<Longrightarrow> distinct (map fst acc) \<Longrightarrow> distinct (map fst sims)"
proof (induction e ce acc rule: similarity_loop.induct)
  case (1 e acc)
  then show ?case by simp
next
  case (2 e c v rest acc)
  then show ?case by (auto split: sum.splits intro: distinct_dict_set)
qed

lemma similarity_loop_keys:
  "similarity_loop e ce acc = Inr sims \<Longrightarrow> distinct (map fst ce) \<Longrightarrow>
   fst ` set ce \<inter> fst ` set acc = {} \<Longrightarrow> map fst sims = map fst acc @ map fst ce"
proof (induction e ce acc rule: similarity_loop.induct)
  case (1 e acc)
  then show ?case by simp
next
  case (2 e c v rest acc)
  from "2.prems"(1) obtain s where s: "cosine_similarity e v = Inr s"
    and loop: "similarity_loop e rest (dict_set acc c s) = Inr sims"
    by (auto split: sum.splits)
  have fresh: "c \<notin> fst ` set acc" using "2.prems"(3) by auto
  have ds: "dict_set acc c s = acc @ [(c, s)]" using fresh by (rule dict_set_fresh)
  have "map fst sims = map fst (dict_set acc c s) @ map fst rest"
  proof (rule "2.IH"[OF s loop])
    show "distinct (map fst rest)" using "2.prems"(2) by simp
    show "fst ` set rest \<inter> fst ` set (dict_set acc c s) = {}"
      using "2.prems"(2,3) unfolding ds by auto
  qed
  then show ?case unfolding ds by simp
qed

subsection \<open>The confidence conversion\<close>

lemma conversion_floor: "py_int (min 95 (max 0 x)) = \<lfloor>max 0 (min 95 x)\<rfloor>"
  by (simp add: py_int_def min_def max_def)

lemma conversion_bounds: "0 \<le> py_int (min 95 (max 0 x)) \<and> py_int (min 95 (max 0 x)) \<le> 95"
  unfolding conversion_floor by (simp add: le_floor_iff floor_le_iff min_def max_def)

subsection \<open>The decision, characterised\<close>

lemma decide_char:
  assumes d: "distinct (map fst sims)" and r: "decide fmt sims = Inr r"
  shows "\<exists>pre b s post. sims = pre @ (b, s) # post \<and> py_max_key sims = Some b \<and>
           (\<forall>y\<in>set pre. snd y < s) \<and> (\<forall>y\<in>set post. snd y \<le> s) \<and>
           category r = (if converted s < 30 then ''primary'' else b) \<and>
           confidence r = (if converted s < 30 then 50 else converted s) \<and>
           labels r = insert (category r)
              {c. \<exists>x. (c, x) \<in> set sims \<and> c \<noteq> category r \<and> 40 \<le> x * 150} \<and>
           reason r = ''Semantic(local): '' @
              join '', '' (map (\<lambda>(c, x). c @ ''='' @ fmt x) (take 3 (sorted_desc sims)))"
proof -
  have ne: "sims \<noteq> []" using r by (auto simp: decide_def py_max_key_def)
  obtain pre b s post where dec: "sims = pre @ (b, s) # post" and key: "py_max_key sims = Some b"
    and lt: "\<forall>y\<in>set pre. snd y < s" and le: "\<forall>y\<in>set post. snd y \<le> s"
    using py_max_key_first[OF ne] by blast
  have "(b, s) \<in> set sims" using dec by simp
  then have look: "map_of sims b = Some s" using d by simp
  have conv: "py_int (min 95 (max 0 (s * 150))) = converted s"
    by (simp only: converted_def conversion_floor)
  have lab: "set ([c] @ map fst (filter (\<lambda>(cat, sim). cat \<noteq> c \<and> sim * 150 \<ge> 40) sims)) =
      insert c {c'. \<exists>x. (c', x) \<in> set sims \<and> c' \<noteq> c \<and> 40 \<le> x * 150}" for c
    by force
  have res: "r = \<lparr>category = (if converted s < 30 then ''primary'' else b),
                  confidence = (if converted s < 30 then 50 else converted s),
                  labels = insert (if converted s < 30 then ''primary'' else b)
                     {c'. \<exists>x. (c', x) \<in> set sims \<and> c' \<noteq> (if converted s < 30 then ''primary'' else b)
                          \<and> 40 \<le> x * 150},
                  reason = ''Semantic(local): '' @
                     join '', '' (map (\<lambda>(c, x). c @ ''='' @ fmt x) (take 3 (sorted_desc sims)))\<rparr>"
    using r unfolding decide_def key look option.case Let_def conv lab
    by (simp split: if_splits)
  show ?thesis
    apply (rule exI[of _ pre], rule exI[of _ b], rule exI[of _ s], rule exI[of _ post])
    apply (intro conjI dec key lt le)
    apply (simp_all only: res ClassificationResult.simps)
    done
qed

lemma decide_total: "sims \<noteq> [] \<Longrightarrow> distinct (map fst sims) \<Longrightarrow> \<exists>r. decide fmt sims = Inr r"
proof -
  assume ne: "sims \<noteq> []" and d: "distinct (map fst sims)"
  obtain pre b s post where dec: "sims = pre @ (b, s) # post" and key: "py_max_key sims = Some b"
    using py_max_key_first[OF ne] by blast
  have "(b, s) \<in> set sims" using dec by simp
  then have look: "map_of sims b = Some s" using d by simp
  show ?thesis unfolding decide_def key look option.case Let_def
    by (simp split: prod.splits)
qed

lemma first_max_is_Max:
  assumes "sims = pre @ (b, s) # post" "\<forall>y\<in>set pre. snd y < s" "\<forall>y\<in>set post. snd y \<le> s"
  shows "Max (snd ` set sims) = s"
proof (rule Max_eqI)
  show "finite (snd ` set sims)" by simp
  show "s \<in> snd ` set sims" using assms(1) by force
  fix y assume "y \<in> snd ` set sims"
  then show "y \<le> s" using assms by force
qed

subsection \<open>What a produced result is\<close>

lemma classify_registry:
  "category_embeddings (snd (classify P fmt st subject sender content sender_name)) =
     category_embeddings (if \<not> initialized st then initialize_category_embeddings P st else st)"
  by (simp add: classify_unfold Let_def get_embedding_def)

lemma classify_result:
  "fst (classify P fmt st subject sender content sender_name) =
     classify_vector fmt
       (category_embeddings (snd (classify P fmt st subject sender content sender_name)))
       (encode P (prepare_email_text subject sender content sender_name))"
  by (simp add: classify_unfold Let_def get_embedding_def)

lemma classify_batch_result:
  assumes "emails \<noteq> []"
  shows "fst (classify_batch P fmt st emails batch_size) =
     classify_batch_loop fmt
       (category_embeddings (snd (classify_batch P fmt st emails batch_size)))
       (encode_batch P (email_texts emails) batch_size) []"
  using assms by (simp add: classify_batch_def Let_def get_embeddings_batch_def email_texts_def)

lemma classify_batch_registry:
  assumes "emails \<noteq> []"
  shows "category_embeddings (snd (classify_batch P fmt st emails batch_size)) =
     category_embeddings (if \<not> initialized st then initialize_category_embeddings P st else st)"
  using assms by (simp add: classify_batch_def Let_def get_embeddings_batch_def email_texts_def)

lemma classify_batch_loop_nth:
  assumes "classify_batch_loop fmt ce es [] = Inr rs"
  shows "length rs = length es \<and> (\<forall>i<length es. classify_vector fmt ce (es ! i) = Inr (rs ! i))"
proof -
  from assms have m: "map (classify_vector fmt ce) es = map Inr rs"
    by (simp add: classify_batch_loop_Inr)
  then have len: "length es = length rs" by (rule map_eq_imp_length_eq)
  have "classify_vector fmt ce (es ! i) = Inr (rs ! i)" if "i < length es" for i
  proof -
    have "map (classify_vector fmt ce) es ! i = map Inr rs ! i" using m by simp
    then show ?thesis using that len by simp
  qed
  with len show ?thesis by simp
qed

lemma produced_decide:
  assumes "produced P fmt st sims r"
  shows "distinct (map fst sims) \<and> decide fmt sims = Inr r"
  using assms
proof cases
  case (by_classify subject sender content sender_name)
  have "distinct (map fst sims)" using similarity_loop_distinct[OF by_classify(2)] by simp
  moreover have "decide fmt sims = Inr r"
    using by_classify(1) unfolding classify_result classify_vector_def by_classify(2) by simp
  ultimately show ?thesis ..
next
  case (by_classify_batch emails batch_size rs i)
  have ne: "emails \<noteq> []" using by_classify_batch(2,3) by (auto simp: classify_batch_def)
  have "classify_batch_loop fmt
       (category_embeddings (snd (classify_batch P fmt st emails batch_size)))
       (encode_batch P (email_texts emails) batch_size) [] = Inr rs"
    using by_classify_batch(2) classify_batch_result[OF ne] by simp
  from classify_batch_loop_nth[OF this] by_classify_batch(3)
  have "classify_vector fmt (category_embeddings (snd (classify_batch P fmt st emails batch_size)))
          (encode_batch P (email_texts emails) batch_size ! i) = Inr (rs ! i)"
    by simp
  then have "decide fmt sims = Inr r"
    unfolding classify_vector_def by_classify_batch(4) by_classify_batch(1) by simp
  moreover have "distinct (map fst sims)"
    using similarity_loop_distinct[OF by_classify_batch(4)] by simp
  ultimately show ?thesis by simp
qed

lemma produced_char:
  assumes "produced P fmt st sims r"
  shows "\<exists>pre b s post. sims = pre @ (b, s) # post \<and> py_max_key sims = Some b \<and>
           (\<forall>y\<in>set pre. snd y < s) \<and> (\<forall>y\<in>set post. snd y \<le> s) \<and>
           Max (snd ` set sims) = s \<and>
           category r = (if converted s < 30 then ''primary'' else b) \<and>
           confidence r = (if converted s < 30 then 50 else converted s) \<and>
           labels r = insert (category r)
              {c. \<exists>x. (c, x) \<in> set sims \<and> c \<noteq> category r \<and> 40 \<le> x * 150}"
proof -
  from produced_decide[OF assms] have d: "distinct (map fst sims)" and r: "decide fmt sims = Inr r"
    by simp_all
  from decide_char[OF d r] obtain pre b s post where
    h: "sims = pre @ (b, s) # post \<and> py_max_key sims = Some b \<and>
           (\<forall>y\<in>set pre. snd y < s) \<and> (\<forall>y\<in>set post. snd y \<le> s) \<and>
           category r = (if converted s < 30 then ''primary'' else b) \<and>
           confidence r = (if converted s < 30 then 50 else converted s) \<and>
           labels r = insert (category r)
              {c. \<exists>x. (c, x) \<in> set sims \<and> c \<noteq> category r \<and> 40 \<le> x * 150} \<and>
           reason r = ''Semantic(local): '' @
              join '', '' (map (\<lambda>(c, x). c @ ''='' @ fmt x) (take 3 (sorted_desc sims)))"
    by (elim exE) 
  have mx: "Max (snd ` set sims) = s"
    using h by (intro first_max_is_Max[of sims pre b s post]) (elim conjE, assumption)+
  show ?thesis
    apply (rule exI[of _ pre], rule exI[of _ b], rule exI[of _ s], rule exI[of _ post])
    using h mx apply (elim conjE)
    apply (intro conjI; assumption)
    done
qed

lemma converted_bounds: "0 \<le> converted s \<and> converted s \<le> 95"
  using conversion_bounds[of "s * 150"] by (simp only: converted_def conversion_floor)

subsection \<open>The registry of a reachable state\<close>

lemma category_names:
  "map fst CATEGORY_DESCRIPTIONS =
     [''work'', ''personal'', ''social'', ''promotions'', ''updates'', ''finance'', ''newsletters'']"
  by (simp add: CATEGORY_DESCRIPTIONS_def)

lemma keys_registry_of: "map fst (registry_of P) = map fst CATEGORY_DESCRIPTIONS"
  by (simp add: registry_of_def case_prod_unfold comp_def)

lemma store_embeddings_fresh:
  "distinct (map fst kvs) \<Longrightarrow> fst ` set kvs \<inter> fst ` set d = {} \<Longrightarrow> store_embeddings kvs d = d @ kvs"
proof (induction kvs d rule: store_embeddings.induct)
  case (1 d)
  show ?case by simp
next
  case (2 c e rest d)
  have fresh: "c \<notin> fst ` set d" using "2.prems"(2) by auto
  have "store_embeddings rest (dict_set d c e) = dict_set d c e @ rest"
  proof (rule "2.IH")
    show "distinct (map fst rest)" using "2.prems"(1) by simp
    show "fst ` set rest \<inter> fst ` set (dict_set d c e) = {}"
      using "2.prems" unfolding dict_set_fresh[OF fresh] by auto
  qed
  then show ?case by (simp add: dict_set_fresh[OF fresh])
qed

lemma category_texts_nonempty:
  "map (\<lambda>(category, descriptions). join '' '' descriptions) CATEGORY_DESCRIPTIONS \<noteq> []"
  by (simp add: CATEGORY_DESCRIPTIONS_def)

lemma initialize_fresh:
  assumes c: "batch_contract P" and n: "\<not> initialized st" and e: "category_embeddings st = []"
  shows "category_embeddings (initialize_category_embeddings P st) = registry_of P"
    and "initialized (initialize_category_embeddings P st)"
proof -
  let ?texts = "map (\<lambda>(category, descriptions). join '' '' descriptions) CATEGORY_DESCRIPTIONS"
  have z: "zip (map fst CATEGORY_DESCRIPTIONS) (encode_batch P ?texts 32) = registry_of P"
    using c unfolding batch_contract_def registry_of_def
    by (simp add: zip_map_map zip_same_conv_map case_prod_unfold)
  have d: "distinct (map fst (registry_of P))"
    unfolding keys_registry_of category_names by simp
  have s: "store_embeddings (registry_of P) [] = registry_of P"
    using store_embeddings_fresh[OF d, of "[]"] by simp
  show "category_embeddings (initialize_category_embeddings P st) = registry_of P"
    using n e category_texts_nonempty
    by (simp add: initialize_category_embeddings_def get_embeddings_batch_def Let_def z s)
  show "initialized (initialize_category_embeddings P st)"
    using n by (simp add: initialize_category_embeddings_def get_embeddings_batch_def Let_def
        split: prod.splits)
qed

lemma initialize_initialized: "initialized (initialize_category_embeddings P st)"
  by (simp add: initialize_category_embeddings_def get_embeddings_batch_def Let_def
        split: prod.splits)

lemma classify_initialized:
  "initialized (snd (classify P fmt st subject sender content sender_name))"
  by (simp add: classify_unfold Let_def get_embedding_def initialize_initialized)

lemma classify_batch_initialized:
  "emails \<noteq> [] \<Longrightarrow> initialized (snd (classify_batch P fmt st emails batch_size))"
  by (simp add: classify_batch_def Let_def get_embeddings_batch_def email_texts_def
        initialize_initialized)

lemma reachable_registry:
  assumes "reachable P fmt st" and c: "batch_contract P"
  shows "if initialized st then category_embeddings st = registry_of P
         else category_embeddings st = []"
  using assms(1)
proof induction
  case fresh
  show ?case by (simp add: initial_state_def)
next
  case (after_initialize st)
  show ?case
  proof (cases "initialized st")
    case True
    then show ?thesis using after_initialize.IH by (simp add: initialize_category_embeddings_def)
  next
    case False
    then show ?thesis using after_initialize.IH initialize_fresh[OF c, of st] by simp
  qed
next
  case (after_classify st subject sender content sender_name)
  show ?case
  proof (cases "initialized st")
    case True
    then show ?thesis using after_classify.IH by (simp add: classify_initialized classify_registry)
  next
    case False
    then show ?thesis using after_classify.IH initialize_fresh[OF c, of st]
      by (simp add: classify_initialized classify_registry)
  qed
next
  case (after_classify_batch st emails batch_size)
  show ?case
  proof (cases "emails = []")
    case True
    then show ?thesis using after_classify_batch.IH by (simp add: classify_batch_def)
  next
    case ne: False
    show ?thesis
    proof (cases "initialized st")
      case True
      then show ?thesis using after_classify_batch.IH ne
        by (simp add: classify_batch_initialized classify_batch_registry)
    next
      case False
      then show ?thesis using after_classify_batch.IH initialize_fresh[OF c, of st] ne
        by (simp add: classify_batch_initialized classify_batch_registry)
    qed
  qed
qed

lemma produced_keys:
  assumes c: "batch_contract P" and re: "reachable P fmt st" and p: "produced P fmt st sims r"
  shows "map fst sims = map fst CATEGORY_DESCRIPTIONS"
  using p
proof cases
  case (by_classify subject sender content sender_name)
  let ?st' = "snd (classify P fmt st subject sender content sender_name)"
  have "reachable P fmt ?st'" using re by (rule reachable.after_classify)
  from reachable_registry[OF this c] have reg: "category_embeddings ?st' = registry_of P"
    by (simp add: classify_initialized)
  have "map fst sims = map fst ([]::(string \<times> real) list) @ map fst (registry_of P)"
    using by_classify(2) unfolding reg
    by (rule similarity_loop_keys) (simp_all add: keys_registry_of category_names)
  then show ?thesis by (simp add: keys_registry_of)
next
  case (by_classify_batch emails batch_size rs i)
  have ne: "emails \<noteq> []" using by_classify_batch(2,3) by (auto simp: classify_batch_def)
  let ?st' = "snd (classify_batch P fmt st emails batch_size)"
  have "reachable P fmt ?st'" using re by (rule reachable.after_classify_batch)
  from reachable_registry[OF this c] have reg: "category_embeddings ?st' = registry_of P"
    by (simp add: classify_batch_initialized[OF ne])
  have "map fst sims = map fst ([]::(string \<times> real) list) @ map fst (registry_of P)"
    using by_classify_batch(4) unfolding reg
    by (rule similarity_loop_keys) (simp_all add: keys_registry_of category_names)
  then show ?thesis by (simp add: keys_registry_of)
qed

subsection \<open>A concrete provider, evaluated\<close>

lemma toy_contract: "batch_contract toy_provider"
  by (simp add: batch_contract_def toy_provider_def)

lemma sqrt_169: "sqrt 169 = 13"
  by (rule real_sqrt_unique) simp_all

lemma toy_registry:
  "registry_of toy_provider =
     [(''work'', [1, 0]), (''personal'', [1, 0]), (''social'', [-1, 0]),
      (''promotions'', [-1, 0]), (''updates'', [-1, 0]), (''finance'', [-1, 0]),
      (''newsletters'', [-1, 0])]"
  by (simp add: registry_of_def CATEGORY_DESCRIPTIONS_def toy_provider_def toy_encode_def)

lemma toy_state_after_classify:
  "category_embeddings (snd (classify toy_provider toy_fmt initial_state subject sender content sender_name))
     = registry_of toy_provider"
  using initialize_fresh(1)[OF toy_contract, of initial_state]
  by (simp add: classify_registry initial_state_def)

lemma toy_state_after_batch:
  "emails \<noteq> [] \<Longrightarrow>
   category_embeddings (snd (classify_batch toy_provider toy_fmt initial_state emails batch_size))
     = registry_of toy_provider"
  using initialize_fresh(1)[OF toy_contract, of initial_state]
  by (simp add: classify_batch_registry initial_state_def)

lemma toy_text_hi: "prepare_email_text ''hi'' [] [] [] = ''Subject: hi''"
  by (simp add: prepare_email_text_def)

lemma toy_text_empty: "prepare_email_text [] [] [] [] = []"
  by (simp add: prepare_email_text_def)

lemma toy_sims_hi:
  "similarity_loop [5, 12]
     [(''work'', [1, 0]), (''personal'', [1, 0]), (''social'', [-1, 0]),
      (''promotions'', [-1, 0]), (''updates'', [-1, 0]), (''finance'', [-1, 0]),
      (''newsletters'', [-1, 0])] [] =
   Inr [(''work'', 5 / 13), (''personal'', 5 / 13), (''social'', - (5 / 13)),
        (''promotions'', - (5 / 13)), (''updates'', - (5 / 13)), (''finance'', - (5 / 13)),
        (''newsletters'', - (5 / 13))]"
  by (simp add: cosine_similarity_def linalg_norm_def sqrt_169)

lemma toy_sims_empty:
  "similarity_loop [0, 0]
     [(''work'', [1, 0]), (''personal'', [1, 0]), (''social'', [-1, 0]),
      (''promotions'', [-1, 0]), (''updates'', [-1, 0]), (''finance'', [-1, 0]),
      (''newsletters'', [-1, 0])] [] =
   Inr [(''work'', 0), (''personal'', 0), (''social'', 0), (''promotions'', 0),
        (''updates'', 0), (''finance'', 0), (''newsletters'', 0)]"
  by (simp add: cosine_similarity_def linalg_norm_def)

lemma toy_decide_hi:
  "decide toy_fmt
     [(''work'', 5 / 13), (''personal'', 5 / 13), (''social'', - (5 / 13)),
      (''promotions'', - (5 / 13)), (''updates'', - (5 / 13)), (''finance'', - (5 / 13)),
      (''newsletters'', - (5 / 13))] =
   Inr \<lparr>category = ''work'', confidence = 57, labels = {''work'', ''personal''},
        reason = ''Semantic(local): work=0.38, personal=0.38, social=-0.38''\<rparr>"
  by (simp add: decide_def py_max_key_def py_int_def sorted_desc_def toy_fmt_def)

lemma toy_decide_empty:
  "decide toy_fmt
     [(''work'', 0), (''personal'', 0), (''social'', 0), (''promotions'', 0),
      (''updates'', 0), (''finance'', 0), (''newsletters'', 0)] =
   Inr \<lparr>category = ''primary'', confidence = 50, labels = {''primary''},
        reason = ''Semantic(local): work=0.00, personal=0.00, social=0.00''\<rparr>"
  by (simp add: decide_def py_max_key_def py_int_def sorted_desc_def toy_fmt_def)

lemma toy_classify_hi:
  "fst (classify toy_provider toy_fmt initial_state ''hi'' [] [] []) =
   Inr \<lparr>category = ''work'', confidence = 57, labels = {''work'', ''personal''},
        reason = ''Semantic(local): work=0.38, personal=0.38, social=-0.38''\<rparr>"
  unfolding classify_result toy_state_after_classify toy_text_hi toy_registry
  by (simp add: classify_vector_def toy_provider_def toy_encode_def toy_sims_hi toy_decide_hi
        del: similarity_loop.simps)

lemma toy_classify_empty:
  "fst (classify toy_provider toy_fmt initial_state [] [] [] []) =
   Inr \<lparr>category = ''primary'', confidence = 50, labels = {''primary''},
        reason = ''Semantic(local): work=0.00, personal=0.00, social=0.00''\<rparr>"
  unfolding classify_result toy_state_after_classify toy_text_empty toy_registry
  by (simp add: classify_vector_def toy_provider_def toy_encode_def toy_sims_empty toy_decide_empty
        del: similarity_loop.simps)

lemma toy_produced_hi:
  "produced toy_provider toy_fmt initial_state
     [(''work'', 5 / 13), (''personal'', 5 / 13), (''social'', - (5 / 13)),
      (''promotions'', - (5 / 13)), (''updates'', - (5 / 13)), (''finance'', - (5 / 13)),
      (''newsletters'', - (5 / 13))]
     \<lparr>category = ''work'', confidence = 57, labels = {''work'', ''personal''},
      reason = ''Semantic(local): work=0.38, personal=0.38, social=-0.38''\<rparr>"
proof (rule produced.by_classify[where subject = "''hi''" and sender = "[]" and content = "[]"
         and sender_name = "[]"])
  show "fst (classify toy_provider toy_fmt initial_state ''hi'' [] [] []) =
        Inr \<lparr>category = ''work'', confidence = 57, labels = {''work'', ''personal''},
             reason = ''Semantic(local): work=0.38, personal=0.38, social=-0.38''\<rparr>"
    by (rule toy_classify_hi)
  show "similarity_loop (encode toy_provider (prepare_email_text ''hi'' [] [] []))
          (category_embeddings (snd (classify toy_provider toy_fmt initial_state ''hi'' [] [] []))) [] =
        Inr [(''work'', 5 / 13), (''personal'', 5 / 13), (''social'', - (5 / 13)),
      (''promotions'', - (5 / 13)), (''updates'', - (5 / 13)), (''finance'', - (5 / 13)),
      (''newsletters'', - (5 / 13))]"
    unfolding toy_state_after_classify toy_text_hi toy_registry
    by (simp add: toy_provider_def toy_encode_def toy_sims_hi del: similarity_loop.simps)
qed

lemma toy_produced_blank:
  "produced toy_provider toy_fmt initial_state blank_sims blank_result"
proof (rule produced.by_classify[where subject = "[]" and sender = "[]" and content = "[]"
         and sender_name = "[]"])
  show "fst (classify toy_provider toy_fmt initial_state [] [] [] []) = Inr blank_result"
    by (rule toy_classify_empty)
  show "similarity_loop (encode toy_provider (prepare_email_text [] [] [] []))
          (category_embeddings (snd (classify toy_provider toy_fmt initial_state [] [] [] []))) [] =
        Inr blank_sims"
    unfolding toy_state_after_classify toy_text_empty toy_registry
    by (simp add: toy_provider_def toy_encode_def toy_sims_empty del: similarity_loop.simps)
qed

lemma Max_hi_sims: "Max (snd ` set hi_sims) = 5 / 13"
  by simp

lemma Max_blank_sims: "Max (snd ` set blank_sims) = 0"
  by simp

text \<open>The same messages through \<^verbatim>\<open>classify_batch\<close>, and the message with a content only.\<close>

lemma sqrt_10201: "sqrt 10201 = 101"
  by (rule real_sqrt_unique) simp_all

lemma toy_text_lo: "prepare_email_text [] [] ''x'' [] = ''Content: x''"
  by (simp add: prepare_email_text_def)

lemma toy_sims_lo:
  "similarity_loop [20, 99]
     [(''work'', [1, 0]), (''personal'', [1, 0]), (''social'', [-1, 0]),
      (''promotions'', [-1, 0]), (''updates'', [-1, 0]), (''finance'', [-1, 0]),
      (''newsletters'', [-1, 0])] [] = Inr lo_sims"
  by (simp add: cosine_similarity_def linalg_norm_def sqrt_10201)

lemma toy_decide_lo: "decide toy_fmt lo_sims = Inr lo_result"
  by (simp add: decide_def py_max_key_def py_int_def sorted_desc_def toy_fmt_def)

lemma toy_vector_hi: "classify_vector toy_fmt (registry_of toy_provider) [5, 12] = Inr hi_result"
  unfolding toy_registry classify_vector_def toy_sims_hi by (simp add: toy_decide_hi)

lemma toy_vector_blank: "classify_vector toy_fmt (registry_of toy_provider) [0, 0] = Inr blank_result"
  unfolding toy_registry classify_vector_def toy_sims_empty by (simp add: toy_decide_empty)

lemma toy_vector_lo: "classify_vector toy_fmt (registry_of toy_provider) [20, 99] = Inr lo_result"
  unfolding toy_registry classify_vector_def toy_sims_lo by (simp add: toy_decide_lo)

lemma toy_classify_lo:
  "fst (classify toy_provider toy_fmt initial_state [] [] ''x'' []) = Inr lo_result"
proof -
  have e: "encode toy_provider ''Content: x'' = [20, 99]"
    by (simp add: toy_provider_def toy_encode_def)
  show ?thesis
    unfolding classify_result toy_state_after_classify toy_text_lo e by (rule toy_vector_lo)
qed

lemma toy_embeddings_hi_blank:
  "encode_batch toy_provider (email_texts hi_blank_batch) n = [[5, 12], [0, 0]]"
  by (simp add: email_texts_def dict_get_default_def toy_text_hi toy_text_empty
        toy_provider_def toy_encode_def)

lemma toy_embeddings_lo:
  "encode_batch toy_provider (email_texts lo_batch) n = [[20, 99]]"
  by (simp add: email_texts_def dict_get_default_def toy_text_lo toy_provider_def toy_encode_def)

lemma toy_batch_hi_blank:
  "fst (classify_batch toy_provider toy_fmt initial_state hi_blank_batch 64) =
     Inr [hi_result, blank_result]"
proof -
  have ne: "hi_blank_batch \<noteq> []" by simp
  show ?thesis
    unfolding classify_batch_result[OF ne] toy_state_after_batch[OF ne] toy_embeddings_hi_blank
    by (simp add: classify_batch_loop_Cons toy_vector_hi toy_vector_blank
          del: classify_batch_loop.simps(2))
qed

lemma toy_batch_lo:
  "fst (classify_batch toy_provider toy_fmt initial_state lo_batch 64) = Inr [lo_result]"
proof -
  have ne: "lo_batch \<noteq> []" by simp
  show ?thesis
    unfolding classify_batch_result[OF ne] toy_state_after_batch[OF ne] toy_embeddings_lo
    by (simp add: classify_batch_loop_Cons toy_vector_lo del: classify_batch_loop.simps(2))
qed

lemma toy_batch_sims_hi:
  "similarity_loop (encode_batch toy_provider (email_texts hi_blank_batch) 64 ! 0)
     (category_embeddings (snd (classify_batch toy_provider toy_fmt initial_state hi_blank_batch 64)))
     [] = Inr hi_sims"
proof -
  have ne: "hi_blank_batch \<noteq> []" by simp
  show ?thesis
    unfolding toy_state_after_batch[OF ne] toy_embeddings_hi_blank toy_registry
    by (simp add: toy_sims_hi del: similarity_loop.simps)
qed

lemma toy_batch_sims_blank:
  "similarity_loop (encode_batch toy_provider (email_texts hi_blank_batch) 64 ! 1)
     (category_embeddings (snd (classify_batch toy_provider toy_fmt initial_state hi_blank_batch 64)))
     [] = Inr blank_sims"
proof -
  have ne: "hi_blank_batch \<noteq> []" by simp
  show ?thesis
    unfolding toy_state_after_batch[OF ne] toy_embeddings_hi_blank toy_registry
    by (simp add: toy_sims_empty del: similarity_loop.simps)
qed

lemma toy_batch_sims_lo:
  "similarity_loop (encode_batch toy_provider (email_texts lo_batch) 64 ! 0)
     (category_embeddings (snd (classify_batch toy_provider toy_fmt initial_state lo_batch 64)))
     [] = Inr lo_sims"
proof -
  have ne: "lo_batch \<noteq> []" by simp
  show ?thesis
    unfolding toy_state_after_batch[OF ne] toy_embeddings_lo toy_registry
    by (simp add: toy_sims_lo del: similarity_loop.simps)
qed

lemma toy_batch_produced_hi:
  "produced toy_provider toy_fmt initial_state hi_sims hi_result"
proof -
  have "produced toy_provider toy_fmt initial_state hi_sims ([hi_result, blank_result] ! 0)"
    using toy_batch_hi_blank _ toy_batch_sims_hi by (rule produced.by_classify_batch) simp
  then show ?thesis by simp
qed

lemma toy_batch_produced_blank:
  "produced toy_provider toy_fmt initial_state blank_sims blank_result"
proof -
  have "produced toy_provider toy_fmt initial_state blank_sims ([hi_result, blank_result] ! 1)"
    using toy_batch_hi_blank _ toy_batch_sims_blank by (rule produced.by_classify_batch) simp
  then show ?thesis by simp
qed

lemma toy_batch_produced_lo:
  "produced toy_provider toy_fmt initial_state lo_sims lo_result"
proof -
  have "produced toy_provider toy_fmt initial_state lo_sims ([lo_result] ! 0)"
    using toy_batch_lo _ toy_batch_sims_lo by (rule produced.by_classify_batch) simp
  then show ?thesis by simp
qed

lemma Max_lo_sims: "Max (snd ` set lo_sims) = 20 / 101"
  by simp

subsection \<open>Result invariants\<close>

text \<open>
  C2: every result of \<^verbatim>\<open>classify\<close> or \<^verbatim>\<open>classify_batch\<close> has a confidence between 0 and 100,
  a non-empty set of labels, and its category among its labels; the labels are names of
  scored categories or \<open>primary\<close>, which for a classifier in a reachable state and a
  provider that keeps its contract are the eight names of the taxonomy.
\<close>

theorem result_invariant:
  assumes "produced P fmt st sims r"
  shows "0 \<le> confidence r \<and> confidence r \<le> 100 \<and> labels r \<noteq> {} \<and> category r \<in> labels r \<and>
         labels r \<subseteq> insert ''primary'' (fst ` set sims) \<and>
         (batch_contract P \<and> reachable P fmt st \<longrightarrow>
            labels r \<subseteq> set (''primary'' # map fst CATEGORY_DESCRIPTIONS))"
proof -
  from produced_char[OF assms] obtain pre b s post where
    sims: "sims = pre @ (b, s) # post"
    and cat: "category r = (if converted s < 30 then ''primary'' else b)"
    and conf: "confidence r = (if converted s < 30 then 50 else converted s)"
    and lab: "labels r = insert (category r)
              {c. \<exists>x. (c, x) \<in> set sims \<and> c \<noteq> category r \<and> 40 \<le> x * 150}"
    by (elim exE conjE)
  have c: "0 \<le> confidence r \<and> confidence r \<le> 100"
    using conf converted_bounds[of s] by (simp split: if_splits)
  have l: "labels r \<noteq> {} \<and> category r \<in> labels r" using lab by blast
  have "b \<in> fst ` set sims" using sims by force
  then have "category r \<in> insert ''primary'' (fst ` set sims)" using cat by simp
  then have sub: "labels r \<subseteq> insert ''primary'' (fst ` set sims)" using lab by force
  have names: "labels r \<subseteq> set (''primary'' # map fst CATEGORY_DESCRIPTIONS)"
    if "batch_contract P" "reachable P fmt st"
  proof -
    have "fst ` set sims = set (map fst CATEGORY_DESCRIPTIONS)"
      unfolding produced_keys[OF that assms, symmetric] by (rule set_map[symmetric])
    with sub show ?thesis by (simp only: list.set)
  qed
  from c l sub names show ?thesis by (intro conjI impI) (elim conjE, assumption)+
qed

theorem result_invariant_witness:
  "produced toy_provider toy_fmt initial_state hi_sims hi_result \<and>
   batch_contract toy_provider \<and> reachable toy_provider toy_fmt initial_state \<and>
   0 \<le> confidence hi_result \<and> confidence hi_result \<le> 100 \<and> labels hi_result \<noteq> {} \<and>
   category hi_result \<in> labels hi_result \<and>
   labels hi_result \<subseteq> insert ''primary'' (fst ` set hi_sims) \<and>
   labels hi_result \<subseteq> set (''primary'' # map fst CATEGORY_DESCRIPTIONS)"
proof -
  have r: "reachable toy_provider toy_fmt initial_state" by (rule reachable.fresh)
  note inv = result_invariant[OF toy_produced_hi]
  have n: "labels hi_result \<subseteq> set (''primary'' # map fst CATEGORY_DESCRIPTIONS)"
    using inv toy_contract r by (elim conjE impE) (rule conjI)
  from toy_produced_hi toy_contract r inv n show ?thesis
    by (intro conjI) (elim conjE, assumption)+
qed

text \<open>
  C10: every result of \<^verbatim>\<open>classify\<close> or \<^verbatim>\<open>classify_batch\<close> has a confidence between 30 and
  95.
\<close>

theorem confidence_range:
  assumes "produced P fmt st sims r"
  shows "30 \<le> confidence r \<and> confidence r \<le> 95"
proof -
  from produced_char[OF assms] obtain s where
    "confidence r = (if converted s < 30 then 50 else converted s)"
    by (elim exE conjE)
  then show ?thesis using converted_bounds[of s] by (simp split: if_splits)
qed

theorem confidence_range_witness:
  "produced toy_provider toy_fmt initial_state blank_sims blank_result \<and>
   30 \<le> confidence blank_result \<and> confidence blank_result \<le> 95"
  using toy_produced_blank confidence_range[OF toy_produced_blank]
  by (intro conjI) (elim conjE, assumption)+

subsection \<open>Confidence conversion and fallback\<close>

lemma converted_code: "py_int (min 95 (max 0 (s * 150))) = converted s"
  by (simp only: converted_def conversion_floor)

text \<open>
  C3, as the code has it: the confidence assigned from the best similarity \<open>s\<close> before
  the fallback check is \<open>s * 150\<close> clamped to \<open>[0, 95]\<close> and then truncated to an integer
  (\<^verbatim>\<open>int\<close>, which on the clamped value is the floor), not rounded to the nearest one. The
  returned confidence is that value unless it is below 30, where it is 50.
\<close>

theorem confidence_conversion:
  assumes "produced P fmt st sims r"
  shows "py_int (min 95 (max 0 (Max (snd ` set sims) * 150))) =
           \<lfloor>max 0 (min 95 (Max (snd ` set sims) * 150))\<rfloor> \<and>
         confidence r =
           (if \<lfloor>max 0 (min 95 (Max (snd ` set sims) * 150))\<rfloor> < 30 then 50
            else \<lfloor>max 0 (min 95 (Max (snd ` set sims) * 150))\<rfloor>)"
proof -
  from produced_char[OF assms] obtain s where
    mx: "Max (snd ` set sims) = s"
    and conf: "confidence r = (if converted s < 30 then 50 else converted s)"
    by (elim exE conjE)
  show ?thesis unfolding mx conversion_floor using conf by (simp only: converted_def simp_thms)
qed

theorem confidence_conversion_witness:
  "fst (classify toy_provider toy_fmt initial_state ''hi'' [] [] []) = Inr hi_result \<and>
   fst (classify_batch toy_provider toy_fmt initial_state hi_blank_batch 64) =
      Inr [hi_result, blank_result] \<and>
   produced toy_provider toy_fmt initial_state hi_sims hi_result \<and>
   py_int (min 95 (max 0 (Max (snd ` set hi_sims) * 150))) =
      \<lfloor>max 0 (min 95 (Max (snd ` set hi_sims) * 150))\<rfloor> \<and>
   confidence hi_result =
      (if \<lfloor>max 0 (min 95 (Max (snd ` set hi_sims) * 150))\<rfloor> < 30 then 50
       else \<lfloor>max 0 (min 95 (Max (snd ` set hi_sims) * 150))\<rfloor>) \<and>
   \<lfloor>max 0 (min 95 (Max (snd ` set hi_sims) * 150))\<rfloor> = 57"
proof -
  have "\<lfloor>max 0 (min 95 (Max (snd ` set hi_sims) * 150))\<rfloor> = 57"
    unfolding Max_hi_sims by simp
  with toy_classify_hi toy_batch_hi_blank toy_batch_produced_hi
    confidence_conversion[OF toy_batch_produced_hi] confidence_conversion[OF toy_produced_hi]
  show ?thesis
    by (intro conjI) (elim conjE, assumption)+
qed

text \<open>
  C3 as stated fails: for the message with subject \<open>hi\<close> the best similarity is
  \<open>5/13\<close>, so \<open>s * 150\<close> is about 57.69; the code returns confidence 57, while rounding to
  the nearest integer gives 58, from \<^verbatim>\<open>classify\<close> and from \<^verbatim>\<open>classify_batch\<close> alike. The
  value is 0.19 away from a half, so every convention for rounding halves gives 58.
\<close>

theorem rounding_counterexample:
  "fst (classify toy_provider toy_fmt initial_state ''hi'' [] [] []) = Inr hi_result \<and>
   fst (classify_batch toy_provider toy_fmt initial_state hi_blank_batch 64) =
      Inr [hi_result, blank_result] \<and>
   produced toy_provider toy_fmt initial_state hi_sims hi_result \<and>
   Max (snd ` set hi_sims) = 5 / 13 \<and>
   confidence hi_result = 57 \<and>
   max 0 (min 95 (round (Max (snd ` set hi_sims) * 150))) = 58 \<and>
   confidence hi_result \<noteq> max 0 (min 95 (round (Max (snd ` set hi_sims) * 150)))"
proof -
  have r: "max 0 (min 95 (round (Max (snd ` set hi_sims) * 150))) = 58"
    unfolding Max_hi_sims by (simp add: round_def)
  have c: "confidence hi_result = 57" by simp
  have n: "confidence hi_result \<noteq> max 0 (min 95 (round (Max (snd ` set hi_sims) * 150)))"
    unfolding r by simp
  from toy_classify_hi toy_batch_hi_blank toy_batch_produced_hi Max_hi_sims c r n show ?thesis
    by (intro conjI)
qed

text \<open>
  C4, as the code has it: when the confidence converted from the best similarity, which
  the code truncates to an integer, is below 30, the result has category \<open>primary\<close> and
  confidence 50; when it is 30 or more, the confidence is the converted one and the
  category is the one \<^verbatim>\<open>max\<close> selected, whose similarity is the maximum.
\<close>

theorem fallback_policy:
  assumes "produced P fmt st sims r"
  shows "(py_int (min 95 (max 0 (Max (snd ` set sims) * 150))) < 30 \<longrightarrow>
            category r = ''primary'' \<and> confidence r = 50) \<and>
         (30 \<le> py_int (min 95 (max 0 (Max (snd ` set sims) * 150))) \<longrightarrow>
            confidence r = py_int (min 95 (max 0 (Max (snd ` set sims) * 150))) \<and>
            py_max_key sims = Some (category r) \<and>
            (category r, Max (snd ` set sims)) \<in> set sims)"
proof -
  from produced_char[OF assms] obtain pre b s post where
    sims: "sims = pre @ (b, s) # post" and key: "py_max_key sims = Some b"
    and mx: "Max (snd ` set sims) = s"
    and cat: "category r = (if converted s < 30 then ''primary'' else b)"
    and conf: "confidence r = (if converted s < 30 then 50 else converted s)"
    by (elim exE conjE)
  have mem: "(b, s) \<in> set sims" using sims by simp
  show ?thesis unfolding mx converted_code using cat conf key mem by simp
qed

theorem fallback_policy_witness:
  "fst (classify toy_provider toy_fmt initial_state ''hi'' [] [] []) = Inr hi_result \<and>
   fst (classify toy_provider toy_fmt initial_state [] [] [] []) = Inr blank_result \<and>
   fst (classify_batch toy_provider toy_fmt initial_state hi_blank_batch 64) =
      Inr [hi_result, blank_result] \<and>
   produced toy_provider toy_fmt initial_state blank_sims blank_result \<and>
   py_int (min 95 (max 0 (Max (snd ` set blank_sims) * 150))) < 30 \<and>
   category blank_result = ''primary'' \<and> confidence blank_result = 50 \<and>
   produced toy_provider toy_fmt initial_state hi_sims hi_result \<and>
   30 \<le> py_int (min 95 (max 0 (Max (snd ` set hi_sims) * 150))) \<and>
   confidence hi_result = py_int (min 95 (max 0 (Max (snd ` set hi_sims) * 150))) \<and>
   py_max_key hi_sims = Some (category hi_result) \<and>
   (category hi_result, Max (snd ` set hi_sims)) \<in> set hi_sims"
proof -
  have lo: "py_int (min 95 (max 0 (Max (snd ` set blank_sims) * 150))) < 30"
    unfolding Max_blank_sims by (simp add: py_int_def)
  have hi: "30 \<le> py_int (min 95 (max 0 (Max (snd ` set hi_sims) * 150)))"
    unfolding Max_hi_sims by (simp add: py_int_def)
  from fallback_policy[OF toy_batch_produced_blank] fallback_policy[OF toy_produced_blank] lo
  have a: "category blank_result = ''primary'' \<and> confidence blank_result = 50" by blast
  from fallback_policy[OF toy_batch_produced_hi] fallback_policy[OF toy_produced_hi] hi
  have b: "confidence hi_result = py_int (min 95 (max 0 (Max (snd ` set hi_sims) * 150))) \<and>
     py_max_key hi_sims = Some (category hi_result) \<and>
     (category hi_result, Max (snd ` set hi_sims)) \<in> set hi_sims" by blast
  from toy_classify_hi toy_classify_empty toy_batch_hi_blank
    toy_batch_produced_blank lo a toy_batch_produced_hi hi b show ?thesis
    by (intro conjI) (elim conjE, assumption)+
qed

text \<open>
  C4 with the conversion by rounding fails: for the message with content \<open>x\<close> the best
  similarity is \<open>20/101\<close>, so \<open>s * 150\<close> is about 29.70, which rounds to 30; the code
  truncates it to 29 and falls back to \<open>primary\<close> with confidence 50, although the category
  of maximal similarity is \<open>work\<close>. Both entry points do so.
\<close>

theorem fallback_rounding_counterexample:
  "fst (classify toy_provider toy_fmt initial_state [] [] ''x'' []) = Inr lo_result \<and>
   fst (classify_batch toy_provider toy_fmt initial_state lo_batch 64) = Inr [lo_result] \<and>
   produced toy_provider toy_fmt initial_state lo_sims lo_result \<and>
   Max (snd ` set lo_sims) = 20 / 101 \<and>
   max 0 (min 95 (round (Max (snd ` set lo_sims) * 150))) = 30 \<and>
   py_int (min 95 (max 0 (Max (snd ` set lo_sims) * 150))) = 29 \<and>
   py_max_key lo_sims = Some ''work'' \<and>
   category lo_result = ''primary'' \<and> confidence lo_result = 50 \<and>
   category lo_result \<noteq> ''work''"
proof -
  have r: "max 0 (min 95 (round (Max (snd ` set lo_sims) * 150))) = 30"
    unfolding Max_lo_sims by (simp add: round_def)
  have t: "py_int (min 95 (max 0 (Max (snd ` set lo_sims) * 150))) = 29"
    unfolding Max_lo_sims by (simp add: py_int_def)
  have k: "py_max_key lo_sims = Some ''work''" by (simp add: py_max_key_def)
  have c: "category lo_result = ''primary'' \<and> confidence lo_result = 50 \<and>
           category lo_result \<noteq> ''work''" by simp
  from toy_classify_lo toy_batch_lo toy_batch_produced_lo Max_lo_sims r t k c show ?thesis
    by (intro conjI) (elim conjE, assumption)+
qed

subsection \<open>Secondary labels\<close>

text \<open>
  C8: the labels of a result are its category together with exactly the scored
  categories other than it whose similarity times 150 is at least 40. The similarity
  mapping has one entry per category, so the similarity of a category is determined.
\<close>

theorem secondary_labels:
  assumes "produced P fmt st sims r"
  shows "distinct (map fst sims) \<and>
         labels r = insert (category r)
            {c. \<exists>x. (c, x) \<in> set sims \<and> c \<noteq> category r \<and> x * 150 \<ge> 40}"
proof -
  from produced_char[OF assms] have
    "labels r = insert (category r)
              {c. \<exists>x. (c, x) \<in> set sims \<and> c \<noteq> category r \<and> 40 \<le> x * 150}"
    by (elim exE conjE)
  with produced_decide[OF assms] show ?thesis by simp
qed

theorem secondary_labels_witness:
  "fst (classify toy_provider toy_fmt initial_state ''hi'' [] [] []) = Inr hi_result \<and>
   fst (classify_batch toy_provider toy_fmt initial_state hi_blank_batch 64) =
      Inr [hi_result, blank_result] \<and>
   produced toy_provider toy_fmt initial_state hi_sims hi_result \<and>
   distinct (map fst hi_sims) \<and>
   labels hi_result = insert (category hi_result)
      {c. \<exists>x. (c, x) \<in> set hi_sims \<and> c \<noteq> category hi_result \<and> x * 150 \<ge> 40} \<and>
   labels hi_result = {''work'', ''personal''} \<and>
   produced toy_provider toy_fmt initial_state blank_sims blank_result \<and>
   labels blank_result = insert (category blank_result)
      {c. \<exists>x. (c, x) \<in> set blank_sims \<and> c \<noteq> category blank_result \<and> x * 150 \<ge> 40} \<and>
   labels blank_result = {''primary''}"
proof -
  have h: "labels hi_result = {''work'', ''personal''}" by simp
  have b: "labels blank_result = {''primary''}" by simp
  from toy_classify_hi toy_batch_hi_blank toy_batch_produced_hi
    secondary_labels[OF toy_batch_produced_hi] secondary_labels[OF toy_produced_hi] h
    toy_batch_produced_blank secondary_labels[OF toy_batch_produced_blank] b
  show ?thesis
    by (intro conjI) (elim conjE, assumption)+
qed

subsection \<open>Category selection\<close>

text \<open>
  C7: for a classifier in a reachable state and a provider that keeps its contract, the
  scored categories are the seven of the taxonomy in its order, \<open>primary\<close> not among them.
  The category \<open>b\<close> that is selected has maximal similarity, and every category before it
  in that order has a strictly smaller one: of several maximal categories the first is
  selected. The category of the result is \<open>b\<close> unless the fallback replaces it.
\<close>

theorem category_selection:
  assumes "batch_contract P" and "reachable P fmt st" and "produced P fmt st sims r"
  shows "map fst sims =
           [''work'', ''personal'', ''social'', ''promotions'', ''updates'', ''finance'',
            ''newsletters''] \<and>
         (\<exists>pre b s post.
            sims = pre @ (b, s) # post \<and>
            (\<forall>y\<in>set pre. snd y < s) \<and> (\<forall>y\<in>set post. snd y \<le> s) \<and>
            py_max_key sims = Some b \<and> b \<noteq> ''primary'' \<and>
            category r = (if py_int (min 95 (max 0 (s * 150))) < 30 then ''primary'' else b))"
proof -
  have keys: "map fst sims =
           [''work'', ''personal'', ''social'', ''promotions'', ''updates'', ''finance'',
            ''newsletters'']"
    using produced_keys[OF assms] by (simp only: category_names)
  from produced_char[OF assms(3)] obtain pre b s post where
    sims: "sims = pre @ (b, s) # post" and key: "py_max_key sims = Some b"
    and lt: "\<forall>y\<in>set pre. snd y < s" and le: "\<forall>y\<in>set post. snd y \<le> s"
    and cat: "category r = (if converted s < 30 then ''primary'' else b)"
    by (elim exE conjE)
  have "b \<in> set (map fst sims)" using sims by simp
  then have np: "b \<noteq> ''primary''" unfolding keys by auto
  have cat': "category r = (if py_int (min 95 (max 0 (s * 150))) < 30 then ''primary'' else b)"
    unfolding converted_code by (rule cat)
  show ?thesis
    apply (rule conjI[OF keys])
    apply (rule exI[of _ pre], rule exI[of _ b], rule exI[of _ s], rule exI[of _ post])
    apply (intro conjI sims lt le key np cat')
    done
qed

theorem category_selection_witness:
  "batch_contract toy_provider \<and> reachable toy_provider toy_fmt initial_state \<and>
   fst (classify toy_provider toy_fmt initial_state ''hi'' [] [] []) = Inr hi_result \<and>
   fst (classify_batch toy_provider toy_fmt initial_state hi_blank_batch 64) =
      Inr [hi_result, blank_result] \<and>
   produced toy_provider toy_fmt initial_state hi_sims hi_result \<and>
   map fst hi_sims =
     [''work'', ''personal'', ''social'', ''promotions'', ''updates'', ''finance'',
      ''newsletters''] \<and>
   (\<exists>pre b s post.
      hi_sims = pre @ (b, s) # post \<and>
      (\<forall>y\<in>set pre. snd y < s) \<and> (\<forall>y\<in>set post. snd y \<le> s) \<and>
      py_max_key hi_sims = Some b \<and> b \<noteq> ''primary'' \<and>
      category hi_result = (if py_int (min 95 (max 0 (s * 150))) < 30 then ''primary'' else b)) \<and>
   py_max_key hi_sims = Some ''work'' \<and> category hi_result = ''work''"
proof -
  have r: "reachable toy_provider toy_fmt initial_state" by (rule reachable.fresh)
  have k: "py_max_key hi_sims = Some ''work''" by (simp add: py_max_key_def)
  have c: "category hi_result = ''work''" by simp
  from toy_contract r toy_classify_hi toy_batch_hi_blank toy_batch_produced_hi
    category_selection[OF toy_contract r toy_batch_produced_hi]
    category_selection[OF toy_contract r toy_produced_hi] k c
  show ?thesis by (intro conjI) (elim conjE, assumption)+
qed

subsection \<open>Batch and single classification\<close>

lemma map_eq_Inr_nth:
  "map f es = map Inr rs \<longleftrightarrow> length rs = length es \<and> (\<forall>i<length es. f (es ! i) = Inr (rs ! i))"
proof
  assume h: "map f es = map Inr rs"
  then have len: "length es = length rs" by (rule map_eq_imp_length_eq)
  have "f (es ! i) = Inr (rs ! i)" if "i < length es" for i
  proof -
    have "map f es ! i = map Inr rs ! i" using h by simp
    then show ?thesis using that len by simp
  qed
  with len show "length rs = length es \<and> (\<forall>i<length es. f (es ! i) = Inr (rs ! i))" by simp
next
  assume h: "length rs = length es \<and> (\<forall>i<length es. f (es ! i) = Inr (rs ! i))"
  show "map f es = map Inr rs"
  proof (rule nth_equalityI)
    show "length (map f es) = length (map Inr rs)" using h by simp
    fix i assume "i < length (map f es)"
    then show "map f es ! i = map Inr rs ! i" using h by simp
  qed
qed


lemma batch_fst:
  assumes c: "batch_contract P" and ne: "emails \<noteq> []"
  shows "fst (classify_batch P fmt st emails batch_size) =
          classify_batch_loop fmt
            (category_embeddings (if \<not> initialized st then initialize_category_embeddings P st else st))
            (map (encode P) (email_texts emails)) []"
proof -
  have enc: "encode_batch P (email_texts emails) batch_size = map (encode P) (email_texts emails)"
    using c unfolding batch_contract_def by blast
  show ?thesis
    by (simp only: classify_batch_result[OF ne] classify_batch_registry[OF ne] enc)
qed

lemma single_fst:
  "fst (classify P fmt st a b c d) =
     classify_vector fmt
       (category_embeddings (if \<not> initialized st then initialize_category_embeddings P st else st))
       (encode P (prepare_email_text a b c d))"
  by (simp only: classify_result classify_registry)

lemma email_texts_nth:
  "i < length emails \<Longrightarrow>
   email_texts emails ! i =
     prepare_email_text
       (dict_get_default (emails ! i) ''subject'' [])
       (dict_get_default (emails ! i) ''sender'' [])
       (dict_get_default (emails ! i) ''content'' [])
       (dict_get_default (emails ! i) ''sender_name'' [])"
  by (simp add: email_texts_def)

lemma length_email_texts: "length (email_texts emails) = length emails"
  by (simp add: email_texts_def)


text \<open>
  C1: let the provider keep its contract (a batch call returns what the single call
  returns for each text). Started in the same state, \<^verbatim>\<open>classify_batch\<close> returns the list
  \<open>rs\<close> exactly when \<open>rs\<close> is as long as the input and, at every index, \<^verbatim>\<open>classify\<close> applied
  to the fields of that message returns the entry of \<open>rs\<close> at that index: the same
  category, confidence, labels and reason. Over the reals the similarities agree exactly.
\<close>

theorem batch_single_equivalence:
  assumes "batch_contract P"
  shows "fst (classify_batch P fmt st emails batch_size) = Inr rs \<longleftrightarrow>
         length rs = length emails \<and>
         (\<forall>i<length emails.
            fst (classify P fmt st
                  (dict_get_default (emails ! i) ''subject'' [])
                  (dict_get_default (emails ! i) ''sender'' [])
                  (dict_get_default (emails ! i) ''content'' [])
                  (dict_get_default (emails ! i) ''sender_name'' [])) = Inr (rs ! i))"
proof (cases "emails = []")
  case True
  have "fst (classify_batch P fmt st [] batch_size) = Inr []" by (simp add: classify_batch_def)
  then show ?thesis unfolding True by auto
next
  case ne: False
  let ?ce = "category_embeddings (if \<not> initialized st then initialize_category_embeddings P st else st)"
  let ?es = "map (encode P) (email_texts emails)"
  have each: "classify_vector fmt ?ce (?es ! i) =
       fst (classify P fmt st
                  (dict_get_default (emails ! i) ''subject'' [])
                  (dict_get_default (emails ! i) ''sender'' [])
                  (dict_get_default (emails ! i) ''content'' [])
                  (dict_get_default (emails ! i) ''sender_name'' []))"
    if "i < length emails" for i
  proof -
    have "?es ! i = encode P (email_texts emails ! i)"
      using that by (simp only: nth_map length_email_texts)
    then show ?thesis by (simp only: single_fst email_texts_nth[OF that])
  qed
  have "fst (classify_batch P fmt st emails batch_size) = Inr rs \<longleftrightarrow>
        classify_batch_loop fmt ?ce ?es [] = Inr rs"
    by (simp only: batch_fst[OF assms ne])
  also have "\<dots> \<longleftrightarrow> map (classify_vector fmt ?ce) ?es = map Inr rs"
    by (simp only: classify_batch_loop_Inr append_Nil ex_simps simp_thms)
  also have "\<dots> \<longleftrightarrow> length rs = length ?es \<and>
      (\<forall>i<length ?es. classify_vector fmt ?ce (?es ! i) = Inr (rs ! i))"
    by (rule map_eq_Inr_nth)
  also have "\<dots> \<longleftrightarrow> length rs = length emails \<and>
      (\<forall>i<length emails. classify_vector fmt ?ce (?es ! i) = Inr (rs ! i))"
    by (simp only: length_map length_email_texts)
  also have "\<dots> \<longleftrightarrow> length rs = length emails \<and>
         (\<forall>i<length emails.
            fst (classify P fmt st
                  (dict_get_default (emails ! i) ''subject'' [])
                  (dict_get_default (emails ! i) ''sender'' [])
                  (dict_get_default (emails ! i) ''content'' [])
                  (dict_get_default (emails ! i) ''sender_name'' [])) = Inr (rs ! i))"
    using each by (metis (no_types, lifting))
  finally show ?thesis .
qed

theorem batch_single_equivalence_witness:
  "batch_contract toy_provider \<and>
   fst (classify_batch toy_provider toy_fmt initial_state
          [[''subject'' \<mapsto> ''hi''], Map.empty] 64) = Inr [hi_result, blank_result] \<and>
   fst (classify toy_provider toy_fmt initial_state ''hi'' [] [] []) = Inr hi_result \<and>
   fst (classify toy_provider toy_fmt initial_state [] [] [] []) = Inr blank_result"
proof -
  let ?emails = "[[''subject'' \<mapsto> ''hi''], Map.empty] :: (string \<rightharpoonup> string) list"
  have each: "fst (classify toy_provider toy_fmt initial_state
                  (dict_get_default (?emails ! i) ''subject'' [])
                  (dict_get_default (?emails ! i) ''sender'' [])
                  (dict_get_default (?emails ! i) ''content'' [])
                  (dict_get_default (?emails ! i) ''sender_name'' [])) =
               Inr ([hi_result, blank_result] ! i)" if "i < length ?emails" for i
  proof -
    from that have "i = 0 \<or> i = 1" by auto
    then show ?thesis
    proof
      assume "i = 0"
      then show ?thesis using toy_classify_hi by (simp add: dict_get_default_def)
    next
      assume "i = 1"
      then show ?thesis using toy_classify_empty by (simp add: dict_get_default_def)
    qed
  qed
  have "fst (classify_batch toy_provider toy_fmt initial_state ?emails 64) =
          Inr [hi_result, blank_result]"
  proof (rule batch_single_equivalence[OF toy_contract, THEN iffD2], intro conjI allI impI)
    show "length [hi_result, blank_result] = length ?emails" by simp
    fix i assume "i < length ?emails"
    then show "fst (classify toy_provider toy_fmt initial_state
                  (dict_get_default (?emails ! i) ''subject'' [])
                  (dict_get_default (?emails ! i) ''sender'' [])
                  (dict_get_default (?emails ! i) ''content'' [])
                  (dict_get_default (?emails ! i) ''sender_name'' [])) =
               Inr ([hi_result, blank_result] ! i)"
      by (rule each)
  qed
  with toy_contract toy_classify_hi toy_classify_empty show ?thesis by (intro conjI)
qed

end
